theory Spec2Isabelle
  imports Complex_Main
begin

section \<open>Territory coverage of the Zenbooker MCP server\<close>

text \<open>
  A shallow embedding of the scheduling tools' coverage check: \<open>geocodeAddress\<close>,
  \<open>createTerritoryBoundaries\<close> and the handler of \<open>checkTerritoryCoverageTool\<close>, with
  \<open>makeZenbookerRequest\<close> of the tool base module.

  JavaScript numbers are idealised as \<^typ>\<open>real\<close>: the literal \<open>0.15\<close> is the real
  \<open>0.15\<close>, and \<open>NaN\<close> has no counterpart. Every network call goes through an explicit
  world, the list of the requests issued so far; the answer to a request may depend on
  the request and on how many requests came before it, so the upstream services may
  answer the same question differently over time. \<open>console.warn\<close> output is not modelled.
\<close>

subsection \<open>Data model\<close>

record Coordinates =
  latitude :: real
  longitude :: real

record GeocodingResult =
  lat :: string
  lon :: string
  display_name :: string

text \<open>\<open>Territory\<close> of the API types; the field \<open>id\<close> is named \<open>id'\<close> here.\<close>

record Territory =
  id' :: string
  name :: string
  description :: "string option"
  zip_codes :: "string list option"
  cities :: "string list option"
  states :: "string list option"
  active :: bool
  created_at :: string
  updated_at :: string

record TerritoryWithBoundaries = Territory +
  boundaries :: "Coordinates list option"
  center :: "Coordinates option"

text \<open>A thrown JavaScript value: an \<open>Error\<close> with its message, or anything else.\<close>

datatype Thrown = ErrorObject string | OtherValue

text \<open>
  What \<open>fetch\<close> gives: the promise rejects, or it resolves to a response with \<open>ok\<close>,
  \<open>status\<close>, \<open>statusText\<close> and the outcomes of \<open>text()\<close> and \<open>json()\<close>.
\<close>

datatype 'j Fetched =
  Rejected Thrown
  | Resolved bool nat string "Thrown + string" "Thrown + 'j"

text \<open>
  The JSON of the territories endpoint as the handler uses it: a paginated response
  whose \<open>results\<close> is a list of territories, or a value over whose \<open>results\<close> the
  \<open>for ... of\<close> loop throws a \<open>TypeError\<close> with the given message.
\<close>

datatype ApiJson = Paginated "Territory list" | NotIterable string

text \<open>
  A request of the log. A geocoding lookup is determined by the address that
  \<open>encodeURIComponent\<close> puts into its URL; a Zenbooker request by its method, URL, bearer
  key and serialised body.
\<close>

datatype Request =
  NominatimSearch string
  | ZenbookerCall string string string "string option"

type_synonym World = "Request list"

text \<open>
  Everything outside the repository: the two upstream services (the index is the number
  of requests issued before), \<open>parseFloat\<close> of the runtime, and the two functions
  imported from the package geolib.
\<close>

record Env =
  nominatim :: "nat \<Rightarrow> string \<Rightarrow> GeocodingResult list option Fetched"
  zenbooker :: "nat \<Rightarrow> Request \<Rightarrow> ApiJson Fetched"
  parseFloat :: "string \<Rightarrow> real"
  isPointInPolygon :: "Coordinates \<Rightarrow> Coordinates list \<Rightarrow> bool"
  getDistance :: "Coordinates \<Rightarrow> Coordinates \<Rightarrow> real"

subsection \<open>Rendering a status code\<close>

text \<open>The decimal digits of a number, as a template literal renders it.\<close>

fun digits :: "nat \<Rightarrow> string" where
  "digits n = (if n < 10 then [''0123456789'' ! n]
               else digits (n div 10) @ [''0123456789'' ! (n mod 10)])"

declare digits.simps [simp del]

subsection \<open>geocodeAddress\<close>

text \<open>\<open>error instanceof Error ? error.message : 'Unknown error'\<close>\<close>

definition messageOf :: "Thrown \<Rightarrow> string" where
  "messageOf t = (case t of ErrorObject m \<Rightarrow> m | OtherValue \<Rightarrow> ''Unknown error'')"

text \<open>The body of the \<open>try\<close> block of \<open>geocodeAddress\<close>, given what \<open>fetch\<close> gave.\<close>

definition geocodeResponse ::
  "Env \<Rightarrow> string \<Rightarrow> GeocodingResult list option Fetched \<Rightarrow> Thrown + Coordinates" where
  "geocodeResponse env address f =
     (case f of
        Rejected t \<Rightarrow> Inl t
      | Resolved ok status statusText txt js \<Rightarrow>
          if \<not> ok then
            Inl (ErrorObject (''Geocoding HTTP '' @ digits status @ '': '' @ statusText))
          else
            (case js of
               Inl t \<Rightarrow> Inl t
             | Inr data \<Rightarrow>
                 (case data of
                    None \<Rightarrow> Inl (ErrorObject (''Could not geocode address: '' @ address))
                  | Some [] \<Rightarrow> Inl (ErrorObject (''Could not geocode address: '' @ address))
                  | Some (r # rest) \<Rightarrow>
                      Inr \<lparr>latitude = parseFloat env (lat r),
                           longitude = parseFloat env (lon r)\<rparr>)))"

definition geocodeAddress ::
  "Env \<Rightarrow> string \<Rightarrow> World \<Rightarrow> (Thrown + Coordinates) \<times> World" where
  "geocodeAddress env address w =
     ((case geocodeResponse env address (nominatim env (length w) address) of
         Inl t \<Rightarrow> Inl (ErrorObject (''Geocoding failed: '' @ messageOf t))
       | Inr coords \<Rightarrow> Inr coords),
      w @ [NominatimSearch address])"

subsection \<open>createTerritoryBoundaries\<close>

text \<open>
  The two \<open>for\<close> loops of \<open>createTerritoryBoundaries\<close> have the same body: geocode the
  next address inside a \<open>try\<close>; on success push the point and set \<open>center\<close> if it is
  unset; on failure warn and go on. The state is \<open>(boundaries, center)\<close>.
\<close>

fun geocodeEach ::
  "Env \<Rightarrow> string list \<Rightarrow> Coordinates list \<times> Coordinates option \<Rightarrow> World \<Rightarrow>
   (Coordinates list \<times> Coordinates option) \<times> World" where
  "geocodeEach env [] acc w = (acc, w)"
| "geocodeEach env (a # as) (bs, c) w =
     (case geocodeAddress env a w of
        (Inr coords, w') \<Rightarrow>
          geocodeEach env as (bs @ [coords], if c = None then Some coords else c) w'
      | (Inl err, w') \<Rightarrow> geocodeEach env as (bs, c) w')"

text \<open>
  \<open>territory.states && territory.states[0] ? `${city}, ${territory.states[0]}` : city\<close>:
  the empty string is falsy.
\<close>

definition cityAddress :: "Territory \<Rightarrow> string \<Rightarrow> string" where
  "cityAddress territory city =
     (case states territory of
        Some (s # rest) \<Rightarrow> if s \<noteq> [] then city @ '', '' @ s else city
      | _ \<Rightarrow> city)"

text \<open>The four corners pushed by the fallback, in the order of the source.\<close>

definition squareCorners :: "Coordinates \<Rightarrow> Coordinates list" where
  "squareCorners c =
     (let offset = 0.15 in
      [\<lparr>latitude = latitude c + offset, longitude = longitude c + offset\<rparr>,
       \<lparr>latitude = latitude c + offset, longitude = longitude c - offset\<rparr>,
       \<lparr>latitude = latitude c - offset, longitude = longitude c - offset\<rparr>,
       \<lparr>latitude = latitude c - offset, longitude = longitude c + offset\<rparr>])"

text \<open>
  Lines 82 to 114: the postal code loop, then the city loop. Every call that can throw
  sits in one of the inner \<open>try\<close> blocks, so the outer \<open>catch\<close> has no branch here.
\<close>

definition collectPoints ::
  "Env \<Rightarrow> Territory \<Rightarrow> World \<Rightarrow> (Coordinates list \<times> Coordinates option) \<times> World" where
  "collectPoints env territory w =
     (let (acc1, w1) =
            (case zip_codes territory of
               Some zs \<Rightarrow>
                 if length zs > 0 then geocodeEach env (take 5 zs) ([], None) w
                 else (([], None), w)
             | None \<Rightarrow> (([], None), w))
      in case cities territory of
           Some cs \<Rightarrow>
             if length cs > 0 \<and> length (fst acc1) < 3
             then geocodeEach env (map (cityAddress territory) (take 3 cs)) acc1 w1
             else (acc1, w1)
         | None \<Rightarrow> (acc1, w1))"

text \<open>Lines 116 to 126: the fallback pushes onto the points collected so far.\<close>

definition squareFallback ::
  "Coordinates list \<times> Coordinates option \<Rightarrow> Coordinates list" where
  "squareFallback acc =
     (case acc of
        (bs, Some c) \<Rightarrow> if length bs < 3 then bs @ squareCorners c else bs
      | (bs, None) \<Rightarrow> bs)"

text \<open>The spread \<open>{...territory, boundaries: ..., center}\<close> of the \<open>return\<close>.\<close>

definition withBoundaries ::
  "Territory \<Rightarrow> Coordinates list option \<Rightarrow> Coordinates option \<Rightarrow> TerritoryWithBoundaries" where
  "withBoundaries territory bs c =
     \<lparr>id' = id' territory, name = name territory, description = description territory,
      zip_codes = zip_codes territory, cities = cities territory, states = states territory,
      active = active territory, created_at = created_at territory,
      updated_at = updated_at territory, boundaries = bs, center = c\<rparr>"

definition createTerritoryBoundaries ::
  "Env \<Rightarrow> Territory \<Rightarrow> World \<Rightarrow> TerritoryWithBoundaries \<times> World" where
  "createTerritoryBoundaries env territory w =
     (let (acc, w') = collectPoints env territory w;
          bs = squareFallback acc
      in (withBoundaries territory (if length bs \<ge> 3 then Some bs else None) (snd acc),
          w'))"

subsection \<open>makeZenbookerRequest\<close>

definition makeZenbookerRequest ::
  "Env \<Rightarrow> string \<Rightarrow> string \<Rightarrow> string option \<Rightarrow> string option \<Rightarrow> World \<Rightarrow>
   (Thrown + ApiJson) \<times> World" where
  "makeZenbookerRequest env endpoint method body apiKey w =
     (if apiKey = None \<or> apiKey = Some [] then
        (Inl (ErrorObject
           ''Zenbooker API key is required. Please set the ZENBOOKER_API_KEY environment variable.''),
         w)
      else
        (let url = ''https://api.zenbooker.com/v1'' @ endpoint;
             req = ZenbookerCall method url (the apiKey)
                     (if method \<noteq> ''GET'' then body else None)
         in ((case zenbooker env (length w) req of
                Rejected t \<Rightarrow> Inl t
              | Resolved ok status statusText txt js \<Rightarrow>
                  if \<not> ok then
                    (case txt of
                       Inl t \<Rightarrow> Inl t
                     | Inr errorText \<Rightarrow>
                         Inl (ErrorObject
                           (''Zenbooker API Error ('' @ digits status @ ''): '' @ errorText)))
                  else js),
             w @ [req])))"

subsection \<open>The handler of checkTerritoryCoverageTool\<close>

text \<open>One element of \<open>results\<close>.\<close>

record AnalysisEntry =
  territory_id :: string
  territory_name :: string
  is_covered :: bool
  distance_meters :: "real option"

text \<open>
  The object under \<open>covered_by_territory\<close>: \<open>id\<close>, \<open>name\<close>, \<open>description\<close>, \<open>zip_codes\<close>,
  \<open>cities\<close> and \<open>states\<close> of the covering territory.
\<close>

record CoveredInfo =
  covered_id :: string
  covered_name :: string
  covered_description :: "string option"
  covered_zip_codes :: "string list option"
  covered_cities :: "string list option"
  covered_states :: "string list option"

text \<open>The object under \<open>closest_territory\<close>.\<close>

record ClosestInfo =
  closest_id :: string
  closest_name :: string
  closest_distance_meters :: real
  closest_distance_miles :: real

record CoverageResponse =
  address :: string
  coordinates :: Coordinates
  coverage_status :: string
  covered_by_territory :: "CoveredInfo option"
  closest_territory :: "ClosestInfo option"
  all_territories_checked :: nat
  territories_analysis :: "AnalysisEntry list"

text \<open>
  The text of the one content item: the rendering of a response (the report with the
  raw data appended), or the error banner followed by the given message.
\<close>

datatype ToolText = CoverageReport CoverageResponse | ErrorReport string

record ToolResult =
  content :: "ToolText list"
  isError :: "bool option"

text \<open>The three variables the loop over the territories updates.\<close>

record LoopState =
  results :: "AnalysisEntry list"
  coveredByTerritory :: "TerritoryWithBoundaries option"
  closestTerritory :: "(TerritoryWithBoundaries \<times> real) option"

text \<open>Lines 167 to 170: the boundaries are defined, have 3 vertices or more, and hold the point.\<close>

definition isInside :: "Env \<Rightarrow> Coordinates \<Rightarrow> TerritoryWithBoundaries \<Rightarrow> bool" where
  "isInside env addressCoords twb =
     (case boundaries twb of
        Some bs \<Rightarrow> length bs \<ge> 3 \<and> isPointInPolygon env addressCoords bs
      | None \<Rightarrow> False)"

text \<open>Lines 176 to 183.\<close>

definition trackClosest ::
  "Env \<Rightarrow> Coordinates \<Rightarrow> TerritoryWithBoundaries \<Rightarrow> LoopState \<Rightarrow> LoopState" where
  "trackClosest env addressCoords twb st =
     (case center twb of
        Some c \<Rightarrow>
          (let distance = getDistance env addressCoords c
           in if (case closestTerritory st of None \<Rightarrow> True | Some (t, d) \<Rightarrow> distance < d)
              then st\<lparr>closestTerritory := Some (twb, distance)\<rparr>
              else st)
      | None \<Rightarrow> st)"

text \<open>Lines 185 to 192.\<close>

definition analysisEntry ::
  "Env \<Rightarrow> Coordinates \<Rightarrow> Territory \<Rightarrow> TerritoryWithBoundaries \<Rightarrow> AnalysisEntry" where
  "analysisEntry env addressCoords territory twb =
     \<lparr>territory_id = id' territory,
      territory_name = name territory,
      is_covered = False,
      distance_meters = map_option (getDistance env addressCoords) (center twb)\<rparr>"

text \<open>The \<open>for\<close> loop of lines 161 to 193, with its \<open>continue\<close> and its \<open>break\<close>.\<close>

fun checkTerritories ::
  "Env \<Rightarrow> Coordinates \<Rightarrow> Territory list \<Rightarrow> LoopState \<Rightarrow> World \<Rightarrow> LoopState \<times> World" where
  "checkTerritories env addressCoords [] st w = (st, w)"
| "checkTerritories env addressCoords (territory # rest) st w =
     (if \<not> active territory then checkTerritories env addressCoords rest st w
      else
        (case createTerritoryBoundaries env territory w of
           (twb, w') \<Rightarrow>
             if isInside env addressCoords twb
             then (st\<lparr>coveredByTerritory := Some twb\<rparr>, w')
             else
               (let st1 = trackClosest env addressCoords twb st;
                    st2 = st1\<lparr>results :=
                            results st1 @ [analysisEntry env addressCoords territory twb]\<rparr>
                in checkTerritories env addressCoords rest st2 w')))"

definition coveredInfo :: "TerritoryWithBoundaries \<Rightarrow> CoveredInfo" where
  "coveredInfo t =
     \<lparr>covered_id = id' t, covered_name = name t, covered_description = description t,
      covered_zip_codes = zip_codes t, covered_cities = cities t,
      covered_states = states t\<rparr>"

text \<open>\<open>Math.round(x)\<close> is \<open>floor (x + 0.5)\<close>.\<close>

definition closestInfo :: "TerritoryWithBoundaries \<times> real \<Rightarrow> ClosestInfo" where
  "closestInfo cl =
     \<lparr>closest_id = id' (fst cl), closest_name = name (fst cl),
      closest_distance_meters = snd cl,
      closest_distance_miles =
        real_of_int \<lfloor>snd cl * 0.000621371 * 100 + 1 / 2\<rfloor> / 100\<rparr>"

text \<open>Lines 195 to 216: the response object.\<close>

definition formatResponse :: "string \<Rightarrow> Coordinates \<Rightarrow> LoopState \<Rightarrow> CoverageResponse" where
  "formatResponse addr addressCoords st =
     \<lparr>address = addr,
      coordinates = addressCoords,
      coverage_status =
        (if coveredByTerritory st \<noteq> None then ''covered'' else ''not_covered''),
      covered_by_territory = map_option coveredInfo (coveredByTerritory st),
      closest_territory = map_option closestInfo (closestTerritory st),
      all_territories_checked = length (results st),
      territories_analysis = results st\<rparr>"

text \<open>Lines 156 to 216: from the territories of the response to the response object.\<close>

definition coverageResponse ::
  "Env \<Rightarrow> string \<Rightarrow> Coordinates \<Rightarrow> Territory list \<Rightarrow> World \<Rightarrow> CoverageResponse \<times> World" where
  "coverageResponse env addr addressCoords ts w =
     (case checkTerritories env addressCoords ts
             \<lparr>results = [], coveredByTerritory = None, closestTerritory = None\<rparr> w of
        (st, w') \<Rightarrow> (formatResponse addr addressCoords st, w'))"

text \<open>The \<open>catch\<close> of the handler.\<close>

definition errorResult :: "Thrown \<Rightarrow> ToolResult" where
  "errorResult t = \<lparr>content = [ErrorReport (messageOf t)], isError = Some True\<rparr>"

definition handler :: "Env \<Rightarrow> string \<Rightarrow> string option \<Rightarrow> World \<Rightarrow> ToolResult \<times> World" where
  "handler env addr apiKey w =
     (case geocodeAddress env addr w of
        (Inl t, w1) \<Rightarrow> (errorResult t, w1)
      | (Inr addressCoords, w1) \<Rightarrow>
          (case makeZenbookerRequest env ''/territories'' ''GET'' None apiKey w1 of
             (Inl t, w2) \<Rightarrow> (errorResult t, w2)
           | (Inr (NotIterable m), w2) \<Rightarrow> (errorResult (ErrorObject m), w2)
           | (Inr (Paginated ts), w2) \<Rightarrow>
               (case coverageResponse env addr addressCoords ts w2 of
                  (response, w3) \<Rightarrow>
                    (\<lparr>content = [CoverageReport response], isError = None\<rparr>, w3))))"

subsection \<open>What the claims speak about\<close>

text \<open>
  The points that lookups of the given addresses return when they are issued one after
  another from world \<open>w\<close>, in order; a lookup that fails contributes nothing.
\<close>

fun geocoded :: "Env \<Rightarrow> string list \<Rightarrow> World \<Rightarrow> Coordinates list" where
  "geocoded env [] w = []"
| "geocoded env (a # as) w =
     (case fst (geocodeAddress env a w) of Inr p \<Rightarrow> [p] | Inl t \<Rightarrow> [])
     @ geocoded env as (w @ [NominatimSearch a])"

definition firstOf :: "'a list \<Rightarrow> 'a option" where
  "firstOf xs = (case xs of [] \<Rightarrow> None | x # rest \<Rightarrow> Some x)"

text \<open>The addresses of a territory: its first 5 postal codes, its first 3 cities.\<close>

definition zipAddresses :: "Territory \<Rightarrow> string list" where
  "zipAddresses t = (case zip_codes t of Some zs \<Rightarrow> take 5 zs | None \<Rightarrow> [])"

definition cityAddresses :: "Territory \<Rightarrow> string list" where
  "cityAddresses t =
     (case cities t of Some cs \<Rightarrow> map (cityAddress t) (take 3 cs) | None \<Rightarrow> [])"

text \<open>
  The lookups made for a territory: the postal codes, and the cities when fewer than 3
  postal codes were found. \<open>geocodedPoints\<close> are the points these lookups return.
\<close>

definition lookups :: "Env \<Rightarrow> Territory \<Rightarrow> World \<Rightarrow> string list" where
  "lookups env t w =
     (if length (geocoded env (zipAddresses t) w) < 3
      then zipAddresses t @ cityAddresses t else zipAddresses t)"

definition geocodedPoints :: "Env \<Rightarrow> Territory \<Rightarrow> World \<Rightarrow> Coordinates list" where
  "geocodedPoints env t w = geocoded env (lookups env t w) w"

text \<open>The world after the boundaries of every active territory of a list were built, in order.\<close>

fun worldAfter :: "Env \<Rightarrow> Territory list \<Rightarrow> World \<Rightarrow> World" where
  "worldAfter env [] w = w"
| "worldAfter env (t # ts) w =
     worldAfter env ts (if active t then snd (createTerritoryBoundaries env t w) else w)"

text \<open>
  No active territory of the list holds the point, each one's boundaries being built in
  the world its predecessors left.
\<close>

fun noneCovers :: "Env \<Rightarrow> Coordinates \<Rightarrow> Territory list \<Rightarrow> World \<Rightarrow> bool" where
  "noneCovers env p [] w = True"
| "noneCovers env p (t # ts) w =
     (if active t
      then \<not> isInside env p (fst (createTerritoryBoundaries env t w)) \<and>
           noneCovers env p ts (snd (createTerritoryBoundaries env t w))
      else noneCovers env p ts w)"

text \<open>The analysis entries of the active territories of a list, in order.\<close>

fun entries :: "Env \<Rightarrow> Coordinates \<Rightarrow> Territory list \<Rightarrow> World \<Rightarrow> AnalysisEntry list" where
  "entries env p [] w = []"
| "entries env p (t # ts) w =
     (if active t
      then analysisEntry env p t (fst (createTerritoryBoundaries env t w))
             # entries env p ts (snd (createTerritoryBoundaries env t w))
      else entries env p ts w)"

text \<open>
  Two environments answer alike every request of a log from position \<open>n\<close> on, and they
  share the runtime and the library.
\<close>

definition answer ::
  "Env \<Rightarrow> nat \<Rightarrow> Request \<Rightarrow> GeocodingResult list option Fetched + ApiJson Fetched" where
  "answer env i r =
     (case r of
        NominatimSearch a \<Rightarrow> Inl (nominatim env i a)
      | ZenbookerCall m u k b \<Rightarrow> Inr (zenbooker env i r))"

definition sameAnswers :: "Env \<Rightarrow> Env \<Rightarrow> nat \<Rightarrow> World \<Rightarrow> bool" where
  "sameAnswers e1 e2 n reqs =
     (\<forall>i. n \<le> i \<and> i < length reqs \<longrightarrow>
          answer e1 i (reqs ! i) = answer e2 i (reqs ! i))"

definition sameLibrary :: "Env \<Rightarrow> Env \<Rightarrow> bool" where
  "sameLibrary e1 e2 =
     (parseFloat e1 = parseFloat e2 \<and> isPointInPolygon e1 = isPointInPolygon e2 \<and>
      getDistance e1 = getDistance e2)"

subsection \<open>Point in polygon\<close>

text \<open>
  Modelled from the spec: \<open>isPointInPolygon\<close> of the package geolib, which the handler
  imports and the repository does not contain. The spec: the standard ray-casting
  algorithm, a point is inside if a ray from the point crosses an odd number of polygon
  edges. The ray runs north from the point: it crosses an edge when the longitude of the
  point lies in the half-open span of the longitudes of the edge and the point lies south
  of the edge at that longitude.
\<close>

definition polygonEdges :: "Coordinates list \<Rightarrow> (Coordinates \<times> Coordinates) list" where
  "polygonEdges vs = (case vs of [] \<Rightarrow> [] | v # rest \<Rightarrow> zip vs (rest @ [v]))"

definition rayCrosses :: "Coordinates \<Rightarrow> Coordinates \<times> Coordinates \<Rightarrow> bool" where
  "rayCrosses point e =
     (case e of
        (a, b) \<Rightarrow>
          ((longitude a \<le> longitude point \<and> longitude point < longitude b) \<or>
           (longitude b \<le> longitude point \<and> longitude point < longitude a)) \<and>
          latitude point <
            (latitude b - latitude a) * (longitude point - longitude a)
              / (longitude b - longitude a) + latitude a)"

definition isPointInPolygon_spec :: "Coordinates \<Rightarrow> Coordinates list \<Rightarrow> bool" where
  "isPointInPolygon_spec point polygon =
     odd (length (filter (rayCrosses point) (polygonEdges polygon)))"

subsection \<open>A small world to run the code in\<close>

text \<open>
  Three postal codes of Billings and one street address are known to the geocoder,
  every other address has no result; the territories endpoint returns the given list.
  The distance is a stand-in for the one of geolib.
\<close>

definition parseFloatDemo :: "string \<Rightarrow> real" where
  "parseFloatDemo s =
     (if s = ''45.75'' then 45.75 else if s = ''46.5'' then 46.5
      else if s = ''-108.5'' then - 108.5 else if s = ''-109.5'' then - 109.5
      else 0)"

definition found :: "string \<Rightarrow> string \<Rightarrow> GeocodingResult list option Fetched" where
  "found la lo =
     Resolved True 200 ''OK'' (Inr [])
       (Inr (Some [\<lparr>lat = la, lon = lo, display_name = []\<rparr>]))"

definition notFound :: "GeocodingResult list option Fetched" where
  "notFound = Resolved True 200 ''OK'' (Inr ''[]'') (Inr (Some []))"

definition demoNominatim :: "nat \<Rightarrow> string \<Rightarrow> GeocodingResult list option Fetched" where
  "demoNominatim i a =
     (if a = ''59101'' \<or> a = ''1 Main St, Billings, MT'' then found ''45.75'' ''-108.5''
      else if a = ''59102'' then found ''45.75'' ''-109.5''
      else if a = ''59105'' then found ''46.5'' ''-108.5''
      else notFound)"

definition demoEnv :: "Territory list \<Rightarrow> Env" where
  "demoEnv ts =
     \<lparr>nominatim = demoNominatim,
      zenbooker = (\<lambda>i r. Resolved True 200 ''OK'' (Inr []) (Inr (Paginated ts))),
      parseFloat = parseFloatDemo,
      isPointInPolygon = isPointInPolygon_spec,
      getDistance = (\<lambda>a b. \<bar>latitude a - latitude b\<bar> + \<bar>longitude a - longitude b\<bar>)\<rparr>"

definition demoTerritory :: "string \<Rightarrow> string list \<Rightarrow> bool \<Rightarrow> Territory" where
  "demoTerritory i zs a =
     \<lparr>id' = i, name = i, description = None, zip_codes = Some zs, cities = None,
      states = None, active = a, created_at = [], updated_at = []\<rparr>"

text \<open>Four territories: the point of the street address lies in the last three.\<close>

definition demoTerritories :: "Territory list" where
  "demoTerritories =
     [demoTerritory ''North'' [''59105''] True,
      demoTerritory ''Closed'' [''59101''] False,
      demoTerritory ''Billings'' [''59101''] True,
      demoTerritory ''Later'' [''59101''] True]"

text \<open>The same world, whose geocoder is down.\<close>

definition downEnv :: "Territory list \<Rightarrow> Env" where
  "downEnv ts =
     (demoEnv ts)\<lparr>nominatim :=
        (\<lambda>i a. Resolved False 503 ''Service Unavailable'' (Inr []) (Inl OtherValue))\<rparr>"

text \<open>The same world, whose geocoder stops answering after ten requests.\<close>

definition laterEnv :: "Territory list \<Rightarrow> Env" where
  "laterEnv ts =
     (demoEnv ts)\<lparr>nominatim :=
        (\<lambda>i a. if i < 10 then demoNominatim i a else Rejected OtherValue)\<rparr>"

section \<open>Properties\<close>

lemmas demo_defs =
  demoEnv_def demoNominatim_def found_def notFound_def parseFloatDemo_def demoTerritory_def
  geocodeAddress_def geocodeResponse_def messageOf_def

lemmas run_defs =
  handler_def makeZenbookerRequest_def coverageResponse_def formatResponse_def
  createTerritoryBoundaries_def collectPoints_def squareFallback_def squareCorners_def
  withBoundaries_def isInside_def trackClosest_def analysisEntry_def coveredInfo_def
  closestInfo_def errorResult_def

lemmas pip_defs = isPointInPolygon_spec_def polygonEdges_def rayCrosses_def

lemma snd_geocodeAddress: "snd (geocodeAddress env a w) = w @ [NominatimSearch a]"
  by (simp add: geocodeAddress_def)

lemma geocoded_append:
  "geocoded env (as @ bs) w = geocoded env as w @ geocoded env bs (w @ map NominatimSearch as)"
  by (induction as arbitrary: w) auto

lemma firstOf_append: "firstOf (xs @ ys) = (case firstOf xs of Some x \<Rightarrow> Some x | None \<Rightarrow> firstOf ys)"
  by (cases xs) (auto simp: firstOf_def)

lemma geocodeEach_eq:
  "geocodeEach env as (bs, c) w =
     ((bs @ geocoded env as w,
       case c of Some x \<Rightarrow> Some x | None \<Rightarrow> firstOf (geocoded env as w)),
      w @ map NominatimSearch as)"
proof (induction as arbitrary: bs c w)
  case Nil
  show ?case by (simp add: firstOf_def split: option.splits)
next
  case (Cons a as)
  obtain r w' where g: "geocodeAddress env a w = (r, w')" by (cases "geocodeAddress env a w")
  then have w': "w' = w @ [NominatimSearch a]" using snd_geocodeAddress [of env a w] by simp
  show ?case
  proof (cases r)
    case (Inl t)
    with g w' Cons.IH [of bs c w'] show ?thesis by (cases c) simp_all
  next
    case (Inr p)
    with g w' Cons.IH [of "bs @ [p]" "if c = None then Some p else c" w'] show ?thesis
      by (cases c) (simp_all add: firstOf_def)
  qed
qed

lemma collectPoints_eq:
  "collectPoints env t w =
     ((geocodedPoints env t w, firstOf (geocodedPoints env t w)),
      w @ map NominatimSearch (lookups env t w))"
  by (cases "zip_codes t"; cases "cities t")
     (auto simp: collectPoints_def geocodedPoints_def lookups_def zipAddresses_def cityAddresses_def
        geocodeEach_eq geocoded_append firstOf_append firstOf_def split: option.splits list.splits)

lemma createTerritoryBoundaries_eq:
  "createTerritoryBoundaries env t w =
     (withBoundaries t
        (if length (geocodedPoints env t w) \<ge> 3 then Some (geocodedPoints env t w)
         else case geocodedPoints env t w of
                [] \<Rightarrow> None
              | p # rest \<Rightarrow> Some (geocodedPoints env t w @ squareCorners p))
        (firstOf (geocodedPoints env t w)),
      w @ map NominatimSearch (lookups env t w))"
  by (simp add: createTerritoryBoundaries_def collectPoints_eq squareFallback_def firstOf_def
        squareCorners_def Let_def split: list.splits)

lemma demo_points3:
  "geocodedPoints (demoEnv []) (demoTerritory ''T'' [''59101'', ''00000'', ''59102'', ''59105''] True) [] =
    [\<lparr>latitude = 45.75, longitude = - 108.5\<rparr>, \<lparr>latitude = 45.75, longitude = - 109.5\<rparr>,
     \<lparr>latitude = 46.5, longitude = - 108.5\<rparr>]"
  by (simp add: geocodedPoints_def lookups_def zipAddresses_def cityAddresses_def demo_defs)

text \<open>
  Claim C6. When the lookups made for a territory return 3 points or more, the boundary
  that \<open>createTerritoryBoundaries\<close> returns is defined and is exactly the list of these
  points, in order: as many vertices as successful lookups, and no corner of the square
  fallback among them.
\<close>

theorem enough_points_kept:
  "3 \<le> length (geocodedPoints env t w) \<Longrightarrow>
   boundaries (fst (createTerritoryBoundaries env t w)) = Some (geocodedPoints env t w)"
  by (simp add: createTerritoryBoundaries_eq withBoundaries_def)

theorem enough_points_kept_witness:
  "3 \<le> length (geocodedPoints (demoEnv [])
          (demoTerritory ''T'' [''59101'', ''00000'', ''59102'', ''59105''] True) []) \<and>
   boundaries (fst (createTerritoryBoundaries (demoEnv [])
          (demoTerritory ''T'' [''59101'', ''00000'', ''59102'', ''59105''] True) [])) =
     Some [\<lparr>latitude = 45.75, longitude = - 108.5\<rparr>, \<lparr>latitude = 45.75, longitude = - 109.5\<rparr>,
           \<lparr>latitude = 46.5, longitude = - 108.5\<rparr>]"
  using enough_points_kept [of "demoEnv []"
      "demoTerritory ''T'' [''59101'', ''00000'', ''59102'', ''59105''] True" "[]"]
  by (simp add: demo_points3)

text \<open>
  Claim C1. The claim asks for exactly the 4 corners of the square when fewer than 3
  points were found and a center is known. The code pushes the corners onto the points
  already collected: for a territory with one postal code that geocodes, the boundary has
  5 vertices, the center itself followed by the 4 corners.
\<close>

theorem square_appended_to_one_point:
  "boundaries (fst (createTerritoryBoundaries (demoEnv []) (demoTerritory ''T'' [''59101''] True) [])) =
     Some [\<lparr>latitude = 45.75, longitude = - 108.5\<rparr>,
           \<lparr>latitude = 45.9, longitude = - 108.35\<rparr>,
           \<lparr>latitude = 45.9, longitude = - 108.65\<rparr>,
           \<lparr>latitude = 45.6, longitude = - 108.65\<rparr>,
           \<lparr>latitude = 45.6, longitude = - 108.35\<rparr>]"
  by (simp add: createTerritoryBoundaries_def collectPoints_def squareFallback_def
        squareCorners_def withBoundaries_def demo_defs)

lemma entries_ids: "map territory_id (entries env p ts w) = map id' (filter active ts)"
  by (induction ts arbitrary: w) (auto simp: analysisEntry_def)

lemma coveredBy_trackClosest [simp]:
  "coveredByTerritory (trackClosest env p twb st) = coveredByTerritory st"
  by (simp add: trackClosest_def Let_def split: option.splits)

lemma results_trackClosest [simp]:
  "results (trackClosest env p twb st) = results st"
  by (simp add: trackClosest_def Let_def split: option.splits)

lemma checkTerritories_scan:
  assumes "checkTerritories env p ts st w = (st', wz)" and "coveredByTerritory st = None"
  shows "case coveredByTerritory st' of
           None \<Rightarrow> noneCovers env p ts w \<and> wz = worldAfter env ts w \<and>
                   results st' = results st @ entries env p ts w
         | Some twb \<Rightarrow>
             (\<exists>pre t post. ts = pre @ t # post \<and> active t \<and> noneCovers env p pre w \<and>
                createTerritoryBoundaries env t (worldAfter env pre w) = (twb, wz) \<and>
                isInside env p twb \<and>
                results st' = results st @ entries env p pre w)"
  using assms
proof (induction ts arbitrary: st w)
  case Nil
  then show ?case by simp
next
  case (Cons t ts)
  obtain twb w' where c: "createTerritoryBoundaries env t w = (twb, w')"
    by (cases "createTerritoryBoundaries env t w")
  let ?st2 = "(trackClosest env p twb st)\<lparr>results :=
                results (trackClosest env p twb st) @ [analysisEntry env p t twb]\<rparr>"
  consider (skip) "\<not> active t" | (hit) "active t" "isInside env p twb"
    | (miss) "active t" "\<not> isInside env p twb" by blast
  then show ?case
  proof cases
    case hit
    with c Cons.prems(1) have fin: "st' = st\<lparr>coveredByTerritory := Some twb\<rparr>" "wz = w'"
      by simp_all
    have "\<exists>pre u post. t # ts = pre @ u # post \<and> active u \<and> noneCovers env p pre w \<and>
            createTerritoryBoundaries env u (worldAfter env pre w) = (twb, wz) \<and>
            isInside env p twb \<and> results st' = results st @ entries env p pre w"
      by (rule exI [of _ "[]"], rule exI [of _ t], rule exI [of _ ts])
         (simp add: hit c fin)
    then show ?thesis by (simp add: fin)
  next
    case skip
    with Cons.prems(1) have run: "checkTerritories env p ts st w = (st', wz)" by simp
    note ih = Cons.IH [OF run Cons.prems(2)]
    show ?thesis
    proof (cases "coveredByTerritory st'")
      case None
      with ih skip show ?thesis by simp
    next
      case (Some tw)
      with ih obtain pre u post where
        h: "ts = pre @ u # post" "active u" "noneCovers env p pre w"
           "createTerritoryBoundaries env u (worldAfter env pre w) = (tw, wz)"
           "isInside env p tw" "results st' = results st @ entries env p pre w"
        by auto
      have "\<exists>pre' u' post'. t # ts = pre' @ u' # post' \<and> active u' \<and>
              noneCovers env p pre' w \<and>
              createTerritoryBoundaries env u' (worldAfter env pre' w) = (tw, wz) \<and>
              isInside env p tw \<and> results st' = results st @ entries env p pre' w"
        by (rule exI [of _ "t # pre"], rule exI [of _ u], rule exI [of _ post])
           (simp add: skip h)
      then show ?thesis by (simp add: Some)
    qed
  next
    case miss
    with c Cons.prems(1) have run: "checkTerritories env p ts ?st2 w' = (st', wz)"
      by (simp add: Let_def)
    have none: "coveredByTerritory ?st2 = None" using Cons.prems(2) by simp
    note ih = Cons.IH [OF run none]
    show ?thesis
    proof (cases "coveredByTerritory st'")
      case None
      with ih miss c show ?thesis by simp
    next
      case (Some tw)
      with ih obtain pre u post where
        h: "ts = pre @ u # post" "active u" "noneCovers env p pre w'"
           "createTerritoryBoundaries env u (worldAfter env pre w') = (tw, wz)"
           "isInside env p tw" "results st' = results ?st2 @ entries env p pre w'"
        by auto
      have "\<exists>pre' u' post'. t # ts = pre' @ u' # post' \<and> active u' \<and>
              noneCovers env p pre' w \<and>
              createTerritoryBoundaries env u' (worldAfter env pre' w) = (tw, wz) \<and>
              isInside env p tw \<and> results st' = results st @ entries env p pre' w"
        by (rule exI [of _ "t # pre"], rule exI [of _ u], rule exI [of _ post])
           (simp add: miss c h)
      then show ?thesis by (simp add: Some)
    qed
  qed
qed

lemma checkTerritories_inactive:
  "checkTerritories env p ts st w = checkTerritories env p (filter active ts) st w"
  by (induction ts arbitrary: st w) (simp_all add: Let_def split: prod.splits)

text \<open>
  Claim C4. When the lookup of the address resolves to a response that is not a success,
  or to a success with zero results, the handler returns an error-flagged result whose
  only content is the message of the failure; the only request it has issued is the
  lookup (none to the territories endpoint), and no coverage response is part of the
  result.
\<close>

theorem failed_geocoding_is_an_error:
  assumes "nominatim env (length w) addr = Resolved ok status statusText txt js"
      and "\<not> ok \<or> js = Inr (Some [])"
  shows "handler env addr apiKey w =
           (\<lparr>content =
               [ErrorReport (''Geocoding failed: '' @
                  (if \<not> ok then ''Geocoding HTTP '' @ digits status @ '': '' @ statusText
                   else ''Could not geocode address: '' @ addr))],
             isError = Some True\<rparr>,
            w @ [NominatimSearch addr])"
  using assms
  by (auto simp: handler_def geocodeAddress_def geocodeResponse_def errorResult_def messageOf_def)

theorem failed_geocoding_is_an_error_witness:
  "nominatim (demoEnv []) (length ([] :: World)) ''nowhere'' =
     Resolved True 200 ''OK'' (Inr ''[]'') (Inr (Some [])) \<and>
   handler (demoEnv []) ''nowhere'' (Some ''key'') [] =
     (\<lparr>content = [ErrorReport ''Geocoding failed: Could not geocode address: nowhere''],
       isError = Some True\<rparr>,
      [NominatimSearch ''nowhere'']) \<and>
   nominatim (downEnv []) (length ([] :: World)) ''59101'' =
     Resolved False 503 ''Service Unavailable'' (Inr []) (Inl OtherValue) \<and>
   handler (downEnv []) ''59101'' (Some ''key'') [] =
     (\<lparr>content = [ErrorReport ''Geocoding failed: Geocoding HTTP 503: Service Unavailable''],
       isError = Some True\<rparr>,
      [NominatimSearch ''59101''])"
  using failed_geocoding_is_an_error [of "demoEnv []" "[]" "''nowhere''" True 200 "''OK''"
      "Inr ''[]''" "Inr (Some [])" "Some ''key''"]
    failed_geocoding_is_an_error [of "downEnv []" "[]" "''59101''" False 503
      "''Service Unavailable''" "Inr []" "Inl OtherValue" "Some ''key''"]
  by (simp add: demo_defs downEnv_def digits.simps)

text \<open>
  Claim C5. Inactive territories are never examined: the response and the requests
  issued are those of the same list with the inactive territories removed, so an inactive
  territory is neither the covering territory nor the closest one nor part of the
  analysis. A list with only an inactive territory gives \<open>not_covered\<close> with nothing
  analysed and no request issued, whatever that territory would hold.
\<close>

theorem inactive_never_examined:
  "coverageResponse env addr p ts w = coverageResponse env addr p (filter active ts) w \<and>
   coverageResponse env addr p [t\<lparr>active := False\<rparr>] w =
     (\<lparr>address = addr, coordinates = p, coverage_status = ''not_covered'',
       covered_by_territory = None, closest_territory = None,
       all_territories_checked = 0, territories_analysis = []\<rparr>, w)"
proof
  show "coverageResponse env addr p ts w = coverageResponse env addr p (filter active ts) w"
    unfolding coverageResponse_def
    by (subst checkTerritories_inactive) (rule refl)
  show "coverageResponse env addr p [t\<lparr>active := False\<rparr>] w =
     (\<lparr>address = addr, coordinates = p, coverage_status = ''not_covered'',
       covered_by_territory = None, closest_territory = None,
       all_territories_checked = 0, territories_analysis = []\<rparr>, w)"
    by (simp add: coverageResponse_def formatResponse_def)
qed

lemma coverageResponse_scan:
  assumes "coverageResponse env addr p ts w = (r, wz)"
  shows "case covered_by_territory r of
           None \<Rightarrow> coverage_status r = ''not_covered'' \<and> noneCovers env p ts w \<and>
                   wz = worldAfter env ts w \<and> territories_analysis r = entries env p ts w
         | Some info \<Rightarrow>
             coverage_status r = ''covered'' \<and>
             (\<exists>pre t post. ts = pre @ t # post \<and> active t \<and> noneCovers env p pre w \<and>
                isInside env p (fst (createTerritoryBoundaries env t (worldAfter env pre w))) \<and>
                info = coveredInfo (fst (createTerritoryBoundaries env t (worldAfter env pre w))) \<and>
                wz = snd (createTerritoryBoundaries env t (worldAfter env pre w)) \<and>
                territories_analysis r = entries env p pre w)"
proof -
  let ?st0 = "\<lparr>results = [], coveredByTerritory = None, closestTerritory = None\<rparr>"
  obtain st where run: "checkTerritories env p ts ?st0 w = (st, wz)"
    and r: "r = formatResponse addr p st"
    using assms by (auto simp: coverageResponse_def split: prod.splits)
  have scan: "case coveredByTerritory st of
           None \<Rightarrow> noneCovers env p ts w \<and> wz = worldAfter env ts w \<and>
                   results st = results ?st0 @ entries env p ts w
         | Some twb \<Rightarrow>
             (\<exists>pre t post. ts = pre @ t # post \<and> active t \<and> noneCovers env p pre w \<and>
                createTerritoryBoundaries env t (worldAfter env pre w) = (twb, wz) \<and>
                isInside env p twb \<and>
                results st = results ?st0 @ entries env p pre w)"
    by (rule checkTerritories_scan [OF run]) simp
  show ?thesis
  proof (cases "coveredByTerritory st")
    case None
    with scan r show ?thesis by (simp add: formatResponse_def)
  next
    case (Some twb)
    with scan obtain pre t post where
      h: "ts = pre @ t # post" "active t" "noneCovers env p pre w"
         "createTerritoryBoundaries env t (worldAfter env pre w) = (twb, wz)"
         "isInside env p twb" "results st = entries env p pre w"
      by auto
    have "\<exists>pre t post. ts = pre @ t # post \<and> active t \<and> noneCovers env p pre w \<and>
                isInside env p (fst (createTerritoryBoundaries env t (worldAfter env pre w))) \<and>
                coveredInfo twb = coveredInfo (fst (createTerritoryBoundaries env t (worldAfter env pre w))) \<and>
                wz = snd (createTerritoryBoundaries env t (worldAfter env pre w)) \<and>
                results st = entries env p pre w"
      by (rule exI [of _ pre], rule exI [of _ t], rule exI [of _ post]) (simp add: h)
    with Some r show ?thesis by (simp add: formatResponse_def)
  qed
qed

lemma covered_id_synthesized:
  "covered_id (coveredInfo (fst (createTerritoryBoundaries env t w))) = id' t"
  by (simp add: createTerritoryBoundaries_eq coveredInfo_def withBoundaries_def)

text \<open>
  Claim C2. When the address geocodes and the territories are fetched, the handler
  returns a coverage report. The territory it reports as covering is the first one in
  list order that is active and whose boundary, built in the world its predecessors
  left, holds the point: no active territory before it does. The requests issued end
  with the lookups of that territory, so no later territory is synthesized. When no
  territory is reported, no active territory of the list holds the point.
\<close>

theorem first_match_wins:
  assumes "geocodeAddress env addr w = (Inr p, w1)"
      and "makeZenbookerRequest env ''/territories'' ''GET'' None apiKey w1 =
             (Inr (Paginated ts), w2)"
      and "handler env addr apiKey w = (res, wz)"
  shows "\<exists>r. res = \<lparr>content = [CoverageReport r], isError = None\<rparr> \<and>
           (case covered_by_territory r of
              None \<Rightarrow> coverage_status r = ''not_covered'' \<and> noneCovers env p ts w2 \<and>
                      wz = worldAfter env ts w2
            | Some info \<Rightarrow>
                coverage_status r = ''covered'' \<and>
                (\<exists>pre t post. ts = pre @ t # post \<and> active t \<and> noneCovers env p pre w2 \<and>
                   isInside env p
                     (fst (createTerritoryBoundaries env t (worldAfter env pre w2))) \<and>
                   info = coveredInfo
                     (fst (createTerritoryBoundaries env t (worldAfter env pre w2))) \<and>
                   covered_id info = id' t \<and>
                   wz = snd (createTerritoryBoundaries env t (worldAfter env pre w2))))"
proof -
  obtain r where cr: "coverageResponse env addr p ts w2 = (r, wz)"
    and res: "res = \<lparr>content = [CoverageReport r], isError = None\<rparr>"
    using assms by (auto simp: handler_def split: prod.splits)
  show ?thesis
  proof (cases "covered_by_territory r")
    case None
    with coverageResponse_scan [OF cr] res show ?thesis by simp
  next
    case (Some info)
    with coverageResponse_scan [OF cr] obtain pre t post where
      h: "coverage_status r = ''covered''" "ts = pre @ t # post" "active t"
         "noneCovers env p pre w2"
         "isInside env p (fst (createTerritoryBoundaries env t (worldAfter env pre w2)))"
         "info = coveredInfo (fst (createTerritoryBoundaries env t (worldAfter env pre w2)))"
         "wz = snd (createTerritoryBoundaries env t (worldAfter env pre w2))"
      by auto
    have "\<exists>pre t post. ts = pre @ t # post \<and> active t \<and> noneCovers env p pre w2 \<and>
                   isInside env p
                     (fst (createTerritoryBoundaries env t (worldAfter env pre w2))) \<and>
                   info = coveredInfo
                     (fst (createTerritoryBoundaries env t (worldAfter env pre w2))) \<and>
                   covered_id info = id' t \<and>
                   wz = snd (createTerritoryBoundaries env t (worldAfter env pre w2))"
      by (rule exI [of _ pre], rule exI [of _ t], rule exI [of _ post])
         (use h in \<open>simp add: covered_id_synthesized\<close>)
    with Some res h(1) show ?thesis by simp
  qed
qed

theorem first_match_wins_witness:
  "geocodeAddress (demoEnv demoTerritories) ''1 Main St, Billings, MT'' [] =
     (Inr \<lparr>latitude = 45.75, longitude = - 108.5\<rparr>,
      [NominatimSearch ''1 Main St, Billings, MT'']) \<and>
   makeZenbookerRequest (demoEnv demoTerritories) ''/territories'' ''GET'' None (Some ''key'')
       [NominatimSearch ''1 Main St, Billings, MT''] =
     (Inr (Paginated demoTerritories),
      [NominatimSearch ''1 Main St, Billings, MT'',
       ZenbookerCall ''GET'' ''https://api.zenbooker.com/v1/territories'' ''key'' None]) \<and>
   handler (demoEnv demoTerritories) ''1 Main St, Billings, MT'' (Some ''key'') [] =
     (\<lparr>content = [CoverageReport
        \<lparr>address = ''1 Main St, Billings, MT'',
         coordinates = \<lparr>latitude = 45.75, longitude = - 108.5\<rparr>,
         coverage_status = ''covered'',
         covered_by_territory = Some \<lparr>covered_id = ''Billings'', covered_name = ''Billings'',
           covered_description = None, covered_zip_codes = Some [''59101''],
           covered_cities = None, covered_states = None\<rparr>,
         closest_territory = Some \<lparr>closest_id = ''North'', closest_name = ''North'',
           closest_distance_meters = 0.75, closest_distance_miles = 0\<rparr>,
         all_territories_checked = 1,
         territories_analysis = [\<lparr>territory_id = ''North'', territory_name = ''North'',
           is_covered = False, distance_meters = Some 0.75\<rparr>]\<rparr>],
       isError = None\<rparr>,
      [NominatimSearch ''1 Main St, Billings, MT'',
       ZenbookerCall ''GET'' ''https://api.zenbooker.com/v1/territories'' ''key'' None,
       NominatimSearch ''59105'', NominatimSearch ''59101''])"
  using first_match_wins [of "demoEnv demoTerritories" "''1 Main St, Billings, MT''" "[]"
      "\<lparr>latitude = 45.75, longitude = - 108.5\<rparr>" "[NominatimSearch ''1 Main St, Billings, MT'']"
      "Some ''key''" demoTerritories
      "[NominatimSearch ''1 Main St, Billings, MT'',
        ZenbookerCall ''GET'' ''https://api.zenbooker.com/v1/territories'' ''key'' None]"]
  by (simp add: run_defs demo_defs pip_defs demoTerritories_def)

text \<open>
  Claim C9. When the status is \<open>covered\<close>, the analysis list holds exactly the entries of
  the active territories before the covering one, in order, and the count is their
  number: the covering territory and the territories after it are in neither.
\<close>

theorem analysis_stops_before_cover:
  assumes "coverageResponse env addr p ts w = (r, wz)"
      and "coverage_status r = ''covered''"
  shows "\<exists>pre t post. ts = pre @ t # post \<and> active t \<and> noneCovers env p pre w \<and>
           isInside env p (fst (createTerritoryBoundaries env t (worldAfter env pre w))) \<and>
           territories_analysis r = entries env p pre w \<and>
           map territory_id (territories_analysis r) = map id' (filter active pre) \<and>
           all_territories_checked r = length (filter active pre)"
proof -
  have all: "all_territories_checked r = length (territories_analysis r)"
    using assms(1) by (auto simp: coverageResponse_def formatResponse_def split: prod.splits)
  show ?thesis
  proof (cases "covered_by_territory r")
    case None
    with coverageResponse_scan [OF assms(1)] assms(2) show ?thesis by simp
  next
    case (Some info)
    with coverageResponse_scan [OF assms(1)] obtain pre t post where
      h: "ts = pre @ t # post" "active t" "noneCovers env p pre w"
         "isInside env p (fst (createTerritoryBoundaries env t (worldAfter env pre w)))"
         "territories_analysis r = entries env p pre w"
      by auto
    have len: "length (entries env p pre w) = length (filter active pre)"
      using entries_ids [of env p pre w] by (metis length_map)
    show ?thesis
      by (rule exI [of _ pre], rule exI [of _ t], rule exI [of _ post])
         (simp add: h all entries_ids len)
  qed
qed

theorem analysis_stops_before_cover_witness:
  "coverageResponse (demoEnv demoTerritories) ''1 Main St, Billings, MT''
       \<lparr>latitude = 45.75, longitude = - 108.5\<rparr> demoTerritories [] =
     (\<lparr>address = ''1 Main St, Billings, MT'',
       coordinates = \<lparr>latitude = 45.75, longitude = - 108.5\<rparr>,
       coverage_status = ''covered'',
       covered_by_territory = Some \<lparr>covered_id = ''Billings'', covered_name = ''Billings'',
         covered_description = None, covered_zip_codes = Some [''59101''],
         covered_cities = None, covered_states = None\<rparr>,
       closest_territory = Some \<lparr>closest_id = ''North'', closest_name = ''North'',
         closest_distance_meters = 0.75, closest_distance_miles = 0\<rparr>,
       all_territories_checked = 1,
       territories_analysis = [\<lparr>territory_id = ''North'', territory_name = ''North'',
         is_covered = False, distance_meters = Some 0.75\<rparr>]\<rparr>,
      [NominatimSearch ''59105'', NominatimSearch ''59101'']) \<and>
   (\<exists>pre t post. demoTerritories = pre @ t # post \<and> active t \<and>
      map id' (filter active pre) = [''North''] \<and> id' t = ''Billings'')"
proof -
  let ?r = "\<lparr>address = ''1 Main St, Billings, MT'',
       coordinates = \<lparr>latitude = 45.75, longitude = - 108.5\<rparr>,
       coverage_status = ''covered'',
       covered_by_territory = Some \<lparr>covered_id = ''Billings'', covered_name = ''Billings'',
         covered_description = None, covered_zip_codes = Some [''59101''],
         covered_cities = None, covered_states = None\<rparr>,
       closest_territory = Some \<lparr>closest_id = ''North'', closest_name = ''North'',
         closest_distance_meters = 0.75, closest_distance_miles = 0\<rparr>,
       all_territories_checked = 1,
       territories_analysis = [\<lparr>territory_id = ''North'', territory_name = ''North'',
         is_covered = False, distance_meters = Some 0.75\<rparr>]\<rparr>"
  have run: "coverageResponse (demoEnv demoTerritories) ''1 Main St, Billings, MT''
       \<lparr>latitude = 45.75, longitude = - 108.5\<rparr> demoTerritories [] =
     (?r, [NominatimSearch ''59105'', NominatimSearch ''59101''])"
    by (simp add: run_defs demo_defs pip_defs demoTerritories_def)
  have st: "coverage_status ?r = ''covered''" by simp
  from analysis_stops_before_cover [OF run st] obtain pre t post where
    h: "demoTerritories = pre @ t # post" "active t"
       "noneCovers (demoEnv demoTerritories) \<lparr>latitude = 45.75, longitude = - 108.5\<rparr> pre []"
       "map territory_id (territories_analysis ?r) = map id' (filter active pre)"
    by blast
  from h(4) have ids: "map id' (filter active pre) = [''North'']" by simp
  have bill: "id' t = ''Billings''"
  proof -
    have cases: "pre = [] \<or> pre = [demoTerritory ''North'' [''59105''] True] \<or>
        pre = [demoTerritory ''North'' [''59105''] True, demoTerritory ''Closed'' [''59101''] False] \<or>
        pre = [demoTerritory ''North'' [''59105''] True, demoTerritory ''Closed'' [''59101''] False,
               demoTerritory ''Billings'' [''59101''] True]"
      using h(1) by (auto simp: demoTerritories_def Cons_eq_append_conv append_eq_Cons_conv)
    then show ?thesis
      using h(1) h(2) ids by (auto simp: demoTerritories_def demoTerritory_def)
  qed
  have ex: "\<exists>pre t post. demoTerritories = pre @ t # post \<and> active t \<and>
      map id' (filter active pre) = [''North''] \<and> id' t = ''Billings''"
    by (rule exI [of _ pre], rule exI [of _ t], rule exI [of _ post])
       (simp add: h(1) [symmetric] h(2) ids bill)
  show ?thesis by (rule conjI [OF run ex])
qed



lemma squareFallback_changes:
  "(squareFallback (bs, c) \<noteq> bs) = (length bs < 3 \<and> c \<noteq> None)"
  by (cases c) (simp_all add: squareFallback_def squareCorners_def Let_def)

text \<open>
  Claim C10. The center that \<open>createTerritoryBoundaries\<close> returns is defined exactly when
  one lookup made for the territory succeeded, and it is the first point found. Before
  the fallback the vertex list is the list of the points found and the center its first
  element, so the condition of the fallback (fewer than 3 vertices and a center) holds
  exactly when the vertex list has 1 or 2 points. The fallback itself changes the vertex
  list exactly when that list has 1 or 2 points, and then it appends the corners around
  the first point; the boundary returned holds the corners in that case only, is the
  list of the points found when there are 3 or more, and is undefined when there is none.
\<close>

theorem center_is_first_geocoded:
  "center (fst (createTerritoryBoundaries env t w)) = firstOf (geocodedPoints env t w) \<and>
   (center (fst (createTerritoryBoundaries env t w)) \<noteq> None) = (geocodedPoints env t w \<noteq> []) \<and>
   fst (collectPoints env t w) = (geocodedPoints env t w, firstOf (geocodedPoints env t w)) \<and>
   (length (fst (fst (collectPoints env t w))) < 3 \<and> snd (fst (collectPoints env t w)) \<noteq> None) =
     (length (fst (fst (collectPoints env t w))) = 1 \<or>
      length (fst (fst (collectPoints env t w))) = 2) \<and>
   (squareFallback (fst (collectPoints env t w)) \<noteq> fst (fst (collectPoints env t w))) =
     (length (fst (fst (collectPoints env t w))) = 1 \<or>
      length (fst (fst (collectPoints env t w))) = 2) \<and>
   squareFallback (fst (collectPoints env t w)) =
     (if length (geocodedPoints env t w) = 1 \<or> length (geocodedPoints env t w) = 2
      then geocodedPoints env t w @ squareCorners (hd (geocodedPoints env t w))
      else geocodedPoints env t w) \<and>
   boundaries (fst (createTerritoryBoundaries env t w)) =
     (if length (geocodedPoints env t w) = 1 \<or> length (geocodedPoints env t w) = 2
      then Some (geocodedPoints env t w @ squareCorners (hd (geocodedPoints env t w)))
      else if 3 \<le> length (geocodedPoints env t w) then Some (geocodedPoints env t w)
      else None)"
proof -
  let ?gp = "geocodedPoints env t w"
  have none: "(firstOf ?gp \<noteq> None) = (?gp \<noteq> [])"
    by (cases ?gp) (simp_all add: firstOf_def)
  have "(?gp \<noteq> []) = (length ?gp \<noteq> 0)" by simp
  then have few: "(length ?gp < 3 \<and> ?gp \<noteq> []) = (length ?gp = 1 \<or> length ?gp = 2)"
    by arith
  have few': "(length ?gp < 3 \<and> firstOf ?gp \<noteq> None) = (length ?gp = 1 \<or> length ?gp = 2)"
    using none few by simp
  have c123: "center (fst (createTerritoryBoundaries env t w)) = firstOf ?gp \<and>
      (center (fst (createTerritoryBoundaries env t w)) \<noteq> None) = (?gp \<noteq> []) \<and>
      fst (collectPoints env t w) = (?gp, firstOf ?gp)"
    using none by (simp add: createTerritoryBoundaries_eq collectPoints_eq withBoundaries_def)
  have c4: "(length (fst (fst (collectPoints env t w))) < 3 \<and>
        snd (fst (collectPoints env t w)) \<noteq> None) =
      (length (fst (fst (collectPoints env t w))) = 1 \<or>
       length (fst (fst (collectPoints env t w))) = 2)"
    using few' by (simp add: collectPoints_eq)
  have c5: "(squareFallback (fst (collectPoints env t w)) \<noteq> fst (fst (collectPoints env t w))) =
      (length (fst (fst (collectPoints env t w))) = 1 \<or>
       length (fst (fst (collectPoints env t w))) = 2)"
    unfolding collectPoints_eq fst_conv squareFallback_changes by (rule few')
  have c6: "squareFallback (fst (collectPoints env t w)) =
     (if length ?gp = 1 \<or> length ?gp = 2 then ?gp @ squareCorners (hd ?gp) else ?gp)"
  proof (cases ?gp)
    case Nil
    then show ?thesis by (simp add: collectPoints_eq squareFallback_def firstOf_def)
  next
    case (Cons q rest)
    have "(length ?gp < 3) = (length ?gp = 1 \<or> length ?gp = 2)"
      using few Cons by simp
    with Cons show ?thesis
      by (simp add: collectPoints_eq squareFallback_def firstOf_def)
  qed
  have c7: "boundaries (fst (createTerritoryBoundaries env t w)) =
     (if length ?gp = 1 \<or> length ?gp = 2 then Some (?gp @ squareCorners (hd ?gp))
      else if 3 \<le> length ?gp then Some ?gp else None)"
  proof (cases ?gp)
    case Nil
    then show ?thesis by (simp add: createTerritoryBoundaries_eq withBoundaries_def)
  next
    case (Cons q rest)
    have "(\<not> 3 \<le> length ?gp) = (length ?gp = 1 \<or> length ?gp = 2)"
      using few Cons by (simp add: not_le)
    with Cons show ?thesis
      by (auto simp: createTerritoryBoundaries_eq withBoundaries_def)
  qed
  note c1 = c123 [THEN conjunct1] and c2 = c123 [THEN conjunct2, THEN conjunct1]
    and c3 = c123 [THEN conjunct2, THEN conjunct2]
  show ?thesis by (intro conjI c1 c2 c3 c4 c5 c6 c7)
qed

lemma center_in_square: "isPointInPolygon_spec c (squareCorners c)"
  by (simp add: pip_defs squareCorners_def Let_def)

text \<open>
  Claim C3. The claim asks that the center of a territory lies inside its fallback
  polygon. For a territory with two postal codes, the second one degree west of the
  first, the fallback polygon is the two points followed by the 4 corners; the center is
  its first vertex, the ray-casting test answers that the center is not inside, and the
  coverage check of an address that geocodes to the center reports \<open>not_covered\<close>.
\<close>

theorem center_outside_fallback_polygon:
  "createTerritoryBoundaries (demoEnv []) (demoTerritory ''T'' [''59101'', ''59102''] True) [] =
     (withBoundaries (demoTerritory ''T'' [''59101'', ''59102''] True)
        (Some [\<lparr>latitude = 45.75, longitude = - 108.5\<rparr>,
               \<lparr>latitude = 45.75, longitude = - 109.5\<rparr>,
               \<lparr>latitude = 45.9, longitude = - 108.35\<rparr>,
               \<lparr>latitude = 45.9, longitude = - 108.65\<rparr>,
               \<lparr>latitude = 45.6, longitude = - 108.65\<rparr>,
               \<lparr>latitude = 45.6, longitude = - 108.35\<rparr>])
        (Some \<lparr>latitude = 45.75, longitude = - 108.5\<rparr>),
      [NominatimSearch ''59101'', NominatimSearch ''59102'']) \<and>
   \<not> isPointInPolygon_spec \<lparr>latitude = 45.75, longitude = - 108.5\<rparr>
       [\<lparr>latitude = 45.75, longitude = - 108.5\<rparr>,
        \<lparr>latitude = 45.75, longitude = - 109.5\<rparr>,
        \<lparr>latitude = 45.9, longitude = - 108.35\<rparr>,
        \<lparr>latitude = 45.9, longitude = - 108.65\<rparr>,
        \<lparr>latitude = 45.6, longitude = - 108.65\<rparr>,
        \<lparr>latitude = 45.6, longitude = - 108.35\<rparr>] \<and>
   fst (handler (demoEnv [demoTerritory ''T'' [''59101'', ''59102''] True])
          ''1 Main St, Billings, MT'' (Some ''key'') []) =
     \<lparr>content = [CoverageReport
        \<lparr>address = ''1 Main St, Billings, MT'',
         coordinates = \<lparr>latitude = 45.75, longitude = - 108.5\<rparr>,
         coverage_status = ''not_covered'',
         covered_by_territory = None,
         closest_territory = Some \<lparr>closest_id = ''T'', closest_name = ''T'',
           closest_distance_meters = 0, closest_distance_miles = 0\<rparr>,
         all_territories_checked = 1,
         territories_analysis = [\<lparr>territory_id = ''T'', territory_name = ''T'',
           is_covered = False, distance_meters = Some 0\<rparr>]\<rparr>],
      isError = None\<rparr>"
  by (simp add: run_defs demo_defs pip_defs)

lemma sameAnswers_mono: "sameAnswers e1 e2 n reqs \<Longrightarrow> n \<le> m \<Longrightarrow> sameAnswers e1 e2 m reqs"
  by (simp add: sameAnswers_def)

lemma sameAnswersD:
  "sameAnswers e1 e2 n reqs \<Longrightarrow> n \<le> i \<Longrightarrow> i < length reqs \<Longrightarrow>
   answer e1 i (reqs ! i) = answer e2 i (reqs ! i)"
  by (simp add: sameAnswers_def)

lemma geocodeAddress_same:
  assumes "sameLibrary e1 e2"
      and "sameAnswers e1 e2 (length w) (w @ NominatimSearch a # rest)"
  shows "geocodeAddress e2 a w = geocodeAddress e1 a w"
proof -
  have "answer e1 (length w) ((w @ NominatimSearch a # rest) ! length w) =
      answer e2 (length w) ((w @ NominatimSearch a # rest) ! length w)"
    by (rule sameAnswersD [OF assms(2)]) simp_all
  then have "nominatim e1 (length w) a = nominatim e2 (length w) a"
    by (simp add: answer_def)
  then have nom: "nominatim e2 (length w) a = nominatim e1 (length w) a" by simp
  have pf: "parseFloat e2 = parseFloat e1" using assms(1) by (simp add: sameLibrary_def)
  show ?thesis
    unfolding geocodeAddress_def geocodeResponse_def nom pf by (rule refl)
qed

lemma geocoded_same:
  assumes "sameLibrary e1 e2"
  shows "sameAnswers e1 e2 (length w) (w @ map NominatimSearch as @ rest) \<Longrightarrow>
         geocoded e2 as w = geocoded e1 as w"
proof (induction as arbitrary: w)
  case Nil
  show ?case by simp
next
  case (Cons a as)
  from Cons.prems have here: "sameAnswers e1 e2 (length w)
      (w @ NominatimSearch a # (map NominatimSearch as @ rest))" by simp
  have head: "geocodeAddress e2 a w = geocodeAddress e1 a w"
    by (rule geocodeAddress_same [OF assms here])
  have "sameAnswers e1 e2 (length (w @ [NominatimSearch a]))
      ((w @ [NominatimSearch a]) @ map NominatimSearch as @ rest)"
    using sameAnswers_mono [OF here, of "length (w @ [NominatimSearch a])"] by simp
  then have "geocoded e2 as (w @ [NominatimSearch a]) = geocoded e1 as (w @ [NominatimSearch a])"
    by (rule Cons.IH)
  with head show ?case by simp
qed

lemma createTerritoryBoundaries_same:
  assumes "sameLibrary e1 e2"
      and "sameAnswers e1 e2 (length w) (snd (createTerritoryBoundaries e1 t w) @ rest)"
  shows "createTerritoryBoundaries e2 t w = createTerritoryBoundaries e1 t w"
proof -
  have made: "sameAnswers e1 e2 (length w) (w @ map NominatimSearch (lookups e1 t w) @ rest)"
    using assms(2) by (simp add: createTerritoryBoundaries_eq)
  obtain more where more: "lookups e1 t w = zipAddresses t @ more"
    by (cases "length (geocoded e1 (zipAddresses t) w) < 3") (simp_all add: lookups_def)
  from made have "sameAnswers e1 e2 (length w)
      (w @ map NominatimSearch (zipAddresses t) @ (map NominatimSearch more @ rest))"
    by (simp add: more)
  then have "geocoded e2 (zipAddresses t) w = geocoded e1 (zipAddresses t) w"
    by (rule geocoded_same [OF assms(1)])
  then have l: "lookups e2 t w = lookups e1 t w"
    by (simp add: lookups_def)
  have "geocoded e2 (lookups e1 t w) w = geocoded e1 (lookups e1 t w) w"
    by (rule geocoded_same [OF assms(1) made])
  then have g: "geocodedPoints e2 t w = geocodedPoints e1 t w"
    by (simp add: geocodedPoints_def l)
  show ?thesis unfolding createTerritoryBoundaries_eq l g by (rule refl)
qed

lemma checkTerritories_extends: "\<exists>more. snd (checkTerritories env p ts st w) = w @ more"
proof (induction ts arbitrary: st w)
  case Nil
  show ?case by simp
next
  case (Cons t ts)
  obtain twb w' where c: "createTerritoryBoundaries env t w = (twb, w')"
    by (cases "createTerritoryBoundaries env t w")
  then have w': "w' = w @ map NominatimSearch (lookups env t w)"
    by (simp add: createTerritoryBoundaries_eq)
  let ?st2 = "(trackClosest env p twb st)\<lparr>results :=
                results (trackClosest env p twb st) @ [analysisEntry env p t twb]\<rparr>"
  consider (skip) "\<not> active t" | (hit) "active t" "isInside env p twb"
    | (miss) "active t" "\<not> isInside env p twb" by blast
  then show ?case
  proof cases
    case skip
    with Cons.IH [of st w] show ?thesis by simp
  next
    case hit
    then have "snd (checkTerritories env p (t # ts) st w) = w'"
      by (simp add: c)
    then show ?thesis by (simp add: w')
  next
    case miss
    then have step: "checkTerritories env p (t # ts) st w = checkTerritories env p ts ?st2 w'"
      by (simp add: c Let_def)
    from Cons.IH [of ?st2 w'] obtain more where
      "snd (checkTerritories env p ts ?st2 w') = w' @ more" by blast
    with step show ?thesis by (simp add: w')
  qed
qed

lemma checkTerritories_same:
  assumes "sameLibrary e1 e2"
  shows "sameAnswers e1 e2 (length w) (snd (checkTerritories e1 p ts st w) @ rest) \<Longrightarrow>
         checkTerritories e2 p ts st w = checkTerritories e1 p ts st w"
proof (induction ts arbitrary: st w)
  case Nil
  show ?case by simp
next
  case (Cons t ts)
  obtain twb w' where c: "createTerritoryBoundaries e1 t w = (twb, w')"
    by (cases "createTerritoryBoundaries e1 t w")
  then have w': "w' = w @ map NominatimSearch (lookups e1 t w)"
    by (simp add: createTerritoryBoundaries_eq)
  from c have sndc: "snd (createTerritoryBoundaries e1 t w) = w'" by simp
  let ?st2 = "(trackClosest e1 p twb st)\<lparr>results :=
                results (trackClosest e1 p twb st) @ [analysisEntry e1 p t twb]\<rparr>"
  have pip: "isPointInPolygon e2 = isPointInPolygon e1" and gd: "getDistance e2 = getDistance e1"
    using assms by (simp_all add: sameLibrary_def)
  have lib: "isInside e2 p twb = isInside e1 p twb"
    "trackClosest e2 p twb st = trackClosest e1 p twb st"
    "analysisEntry e2 p t twb = analysisEntry e1 p t twb"
    unfolding isInside_def trackClosest_def analysisEntry_def pip gd by (rule refl)+
  consider (skip) "\<not> active t" | (hit) "active t" "isInside e1 p twb"
    | (miss) "active t" "\<not> isInside e1 p twb" by blast
  then show ?case
  proof cases
    case skip
    with Cons.prems have "sameAnswers e1 e2 (length w) (snd (checkTerritories e1 p ts st w) @ rest)"
      by simp
    then have "checkTerritories e2 p ts st w = checkTerritories e1 p ts st w" by (rule Cons.IH)
    with skip show ?thesis by simp
  next
    case hit
    then have fin: "checkTerritories e1 p (t # ts) st w = (st\<lparr>coveredByTerritory := Some twb\<rparr>, w')"
      by (simp add: c)
    with Cons.prems have "sameAnswers e1 e2 (length w) (snd (createTerritoryBoundaries e1 t w) @ rest)"
      by (simp add: sndc)
    then have "createTerritoryBoundaries e2 t w = createTerritoryBoundaries e1 t w"
      by (rule createTerritoryBoundaries_same [OF assms])
    with hit fin lib show ?thesis by (simp add: c)
  next
    case miss
    then have step: "checkTerritories e1 p (t # ts) st w = checkTerritories e1 p ts ?st2 w'"
      by (simp add: c Let_def)
    obtain more where more: "snd (checkTerritories e1 p ts ?st2 w') = w' @ more"
      using checkTerritories_extends by blast
    from Cons.prems step have all: "sameAnswers e1 e2 (length w)
        (snd (checkTerritories e1 p ts ?st2 w') @ rest)" by simp
    then have "sameAnswers e1 e2 (length w) (snd (createTerritoryBoundaries e1 t w) @ (more @ rest))"
      by (simp only: sndc more append_assoc)
    then have same: "createTerritoryBoundaries e2 t w = createTerritoryBoundaries e1 t w"
      by (rule createTerritoryBoundaries_same [OF assms])
    have "sameAnswers e1 e2 (length w') (snd (checkTerritories e1 p ts ?st2 w') @ rest)"
      by (rule sameAnswers_mono [OF all]) (simp add: w')
    then have "checkTerritories e2 p ts ?st2 w' = checkTerritories e1 p ts ?st2 w'"
      by (rule Cons.IH)
    with miss step same lib show ?thesis by (simp add: c Let_def)
  qed
qed

lemma makeZenbookerRequest_same:
  assumes "sameAnswers e1 e2 (length w)
             (snd (makeZenbookerRequest e1 endpoint method body apiKey w) @ rest)"
  shows "makeZenbookerRequest e2 endpoint method body apiKey w =
         makeZenbookerRequest e1 endpoint method body apiKey w"
proof (cases "apiKey = None \<or> apiKey = Some []")
  case True
  then show ?thesis by (auto simp: makeZenbookerRequest_def)
next
  case False
  let ?req = "ZenbookerCall method (''https://api.zenbooker.com/v1'' @ endpoint) (the apiKey)
                (if method \<noteq> ''GET'' then body else None)"
  have snd1: "snd (makeZenbookerRequest e1 endpoint method body apiKey w) = w @ [?req]"
    using False by (simp add: makeZenbookerRequest_def Let_def)
  have made: "sameAnswers e1 e2 (length w) (w @ ?req # rest)"
    using assms unfolding snd1 by simp
  have "answer e1 (length w) ((w @ ?req # rest) ! length w) =
      answer e2 (length w) ((w @ ?req # rest) ! length w)"
    by (rule sameAnswersD [OF made]) simp_all
  then have "zenbooker e1 (length w) ?req = zenbooker e2 (length w) ?req"
    by (simp add: answer_def)
  then show ?thesis using False by (simp add: makeZenbookerRequest_def Let_def)
qed

lemma makeZenbookerRequest_extends:
  "\<exists>more. snd (makeZenbookerRequest env endpoint method body apiKey w) = w @ more"
  by (simp add: makeZenbookerRequest_def Let_def)

lemma handler_world:
  "handler env addr apiKey w = (res, wz) \<Longrightarrow>
   \<exists>g z w2 m2 m3.
     geocodeAddress env addr w = (g, w @ [NominatimSearch addr]) \<and>
     makeZenbookerRequest env ''/territories'' ''GET'' None apiKey (w @ [NominatimSearch addr]) =
       (z, w2) \<and>
     w2 = w @ NominatimSearch addr # m2 \<and>
     (case g of
        Inl t \<Rightarrow> wz = w @ [NominatimSearch addr]
      | Inr p \<Rightarrow>
          (case z of
             Inr (Paginated ts) \<Rightarrow>
               wz = snd (checkTerritories env p ts
                      \<lparr>results = [], coveredByTerritory = None, closestTerritory = None\<rparr> w2) \<and>
               wz = w2 @ m3
           | _ \<Rightarrow> wz = w2))"
proof -
  assume run: "handler env addr apiKey w = (res, wz)"
  let ?w1 = "w @ [NominatimSearch addr]"
  let ?st0 = "\<lparr>results = [], coveredByTerritory = None, closestTerritory = None\<rparr>"
  obtain g where g: "geocodeAddress env addr w = (g, ?w1)"
    by (simp add: geocodeAddress_def)
  obtain z w2 where z: "makeZenbookerRequest env ''/territories'' ''GET'' None apiKey ?w1 = (z, w2)"
    by (cases "makeZenbookerRequest env ''/territories'' ''GET'' None apiKey ?w1")
  obtain m2 where w2: "w2 = w @ NominatimSearch addr # m2"
    using makeZenbookerRequest_extends [of env "''/territories''" "''GET''" None apiKey ?w1] z
    by auto
  have tail: "\<exists>m3. case g of
        Inl t \<Rightarrow> wz = ?w1
      | Inr p \<Rightarrow>
          (case z of
             Inr (Paginated ts) \<Rightarrow>
               wz = snd (checkTerritories env p ts ?st0 w2) \<and> wz = w2 @ m3
           | _ \<Rightarrow> wz = w2)"
  proof (cases g)
    case (Inl t)
    with run g show ?thesis by (simp add: handler_def)
  next
    case (Inr p)
    show ?thesis
    proof (cases z)
      case (Inl t)
      with run g z \<open>g = Inr p\<close> show ?thesis by (simp add: handler_def)
    next
      case zr: (Inr j)
      show ?thesis
      proof (cases j)
        case (NotIterable m)
        with run g z zr \<open>g = Inr p\<close> show ?thesis by (simp add: handler_def)
      next
        case (Paginated ts)
        with run g z zr \<open>g = Inr p\<close>
        have wz: "wz = snd (checkTerritories env p ts ?st0 w2)"
          by (auto simp: handler_def coverageResponse_def split: prod.splits)
        obtain m3 where m3: "snd (checkTerritories env p ts ?st0 w2) = w2 @ m3"
          using checkTerritories_extends [of env p ts ?st0 w2] by blast
        show ?thesis
          by (rule exI [of _ m3]) (simp add: Paginated zr \<open>g = Inr p\<close> wz m3)
      qed
    qed
  qed
  with g z w2 show ?thesis by blast
qed

text \<open>
  Claim C8. Two runs of the handler on the same address and key, from the same world,
  in environments that share the runtime and the library and give the same answer to
  every request the first run issues (the lookups and the fetch of the territories),
  return the same result and issue the same requests.
\<close>

theorem same_answers_same_result:
  assumes "handler e1 addr apiKey w = (res, wz)"
      and "sameLibrary e1 e2"
      and "sameAnswers e1 e2 (length w) wz"
  shows "handler e2 addr apiKey w = (res, wz)"
proof -
  let ?w1 = "w @ [NominatimSearch addr]"
  let ?st0 = "\<lparr>results = [], coveredByTerritory = None, closestTerritory = None\<rparr>"
  from handler_world [OF assms(1)] obtain g z w2 m2 m3 where
    g: "geocodeAddress e1 addr w = (g, ?w1)" and
    z: "makeZenbookerRequest e1 ''/territories'' ''GET'' None apiKey ?w1 = (z, w2)" and
    w2: "w2 = w @ NominatimSearch addr # m2" and
    tail: "case g of
        Inl t \<Rightarrow> wz = ?w1
      | Inr p \<Rightarrow>
          (case z of
             Inr (Paginated ts) \<Rightarrow>
               wz = snd (checkTerritories e1 p ts ?st0 w2) \<and> wz = w2 @ m3
           | _ \<Rightarrow> wz = w2)"
    by blast
  have "\<exists>m. wz = w @ NominatimSearch addr # m"
    using tail w2 by (auto split: sum.splits ApiJson.splits)
  then obtain m where m: "wz = w @ NominatimSearch addr # m" ..
  have g2: "geocodeAddress e2 addr w = geocodeAddress e1 addr w"
    by (rule geocodeAddress_same [OF assms(2)]) (use assms(3) m in simp)
  show ?thesis
  proof (cases g)
    case (Inl t)
    with g assms(1) show ?thesis by (simp add: handler_def g2)
  next
    case (Inr p)
    have "\<exists>m'. wz = w2 @ m'"
      using tail Inr by (auto split: sum.splits ApiJson.splits)
    then obtain m' where m': "wz = w2 @ m'" ..
    have "sameAnswers e1 e2 (length ?w1)
        (snd (makeZenbookerRequest e1 ''/territories'' ''GET'' None apiKey ?w1) @ m')"
      using sameAnswers_mono [OF assms(3), of "length ?w1"] m' z by simp
    then have z2: "makeZenbookerRequest e2 ''/territories'' ''GET'' None apiKey ?w1 =
        makeZenbookerRequest e1 ''/territories'' ''GET'' None apiKey ?w1"
      by (rule makeZenbookerRequest_same)
    show ?thesis
    proof (cases z)
      case (Inl t)
      with g z Inr assms(1) show ?thesis by (simp add: handler_def g2 z2)
    next
      case zr: (Inr j)
      show ?thesis
      proof (cases j)
        case (NotIterable msg)
        with g z zr Inr assms(1) show ?thesis by (simp add: handler_def g2 z2)
      next
        case (Paginated ts)
        with tail Inr zr have wz: "wz = snd (checkTerritories e1 p ts ?st0 w2)" by simp
        have "sameAnswers e1 e2 (length w2) (snd (checkTerritories e1 p ts ?st0 w2) @ [])"
          using sameAnswers_mono [OF assms(3), of "length w2"] wz w2 by simp
        then have c2: "checkTerritories e2 p ts ?st0 w2 = checkTerritories e1 p ts ?st0 w2"
          by (rule checkTerritories_same [OF assms(2)])
        from g z zr Inr Paginated assms(1) show ?thesis
          by (simp add: handler_def coverageResponse_def g2 z2 c2)
      qed
    qed
  qed
qed

lemma laterEnv_agrees:
  "length reqs \<le> 10 \<Longrightarrow> sameAnswers (demoEnv ts) (laterEnv ts) n reqs"
  by (simp add: sameAnswers_def answer_def laterEnv_def demoEnv_def split: Request.splits)

theorem same_answers_same_result_witness:
  "handler (demoEnv demoTerritories) ''1 Main St, Billings, MT'' (Some ''key'') [] =
     handler (laterEnv demoTerritories) ''1 Main St, Billings, MT'' (Some ''key'') [] \<and>
   snd (handler (demoEnv demoTerritories) ''1 Main St, Billings, MT'' (Some ''key'') []) =
     [NominatimSearch ''1 Main St, Billings, MT'',
      ZenbookerCall ''GET'' ''https://api.zenbooker.com/v1/territories'' ''key'' None,
      NominatimSearch ''59105'', NominatimSearch ''59101''] \<and>
   sameLibrary (demoEnv demoTerritories) (laterEnv demoTerritories) \<and>
   sameAnswers (demoEnv demoTerritories) (laterEnv demoTerritories) 0
     [NominatimSearch ''1 Main St, Billings, MT'',
      ZenbookerCall ''GET'' ''https://api.zenbooker.com/v1/territories'' ''key'' None,
      NominatimSearch ''59105'', NominatimSearch ''59101''] \<and>
   nominatim (demoEnv demoTerritories) 10 ''59101'' \<noteq> nominatim (laterEnv demoTerritories) 10 ''59101''"
proof -
  let ?e1 = "demoEnv demoTerritories" and ?e2 = "laterEnv demoTerritories"
  let ?wz = "[NominatimSearch ''1 Main St, Billings, MT'',
      ZenbookerCall ''GET'' ''https://api.zenbooker.com/v1/territories'' ''key'' None,
      NominatimSearch ''59105'', NominatimSearch ''59101'']"
  have world: "snd (handler ?e1 ''1 Main St, Billings, MT'' (Some ''key'') []) = ?wz"
    by (simp add: run_defs demo_defs pip_defs demoTerritories_def)
  then have run: "handler ?e1 ''1 Main St, Billings, MT'' (Some ''key'') [] =
      (fst (handler ?e1 ''1 Main St, Billings, MT'' (Some ''key'') []), ?wz)"
    by (metis prod.collapse)
  have lib: "sameLibrary ?e1 ?e2" by (simp add: sameLibrary_def laterEnv_def)
  have ans: "sameAnswers ?e1 ?e2 0 ?wz" by (rule laterEnv_agrees) simp
  have ans': "sameAnswers ?e1 ?e2 (length ([] :: World)) ?wz" using ans by simp
  have differ: "nominatim ?e1 10 ''59101'' \<noteq> nominatim ?e2 10 ''59101''"
    by (simp add: laterEnv_def demo_defs)
  from same_answers_same_result [OF run lib ans'] run
  have "handler ?e1 ''1 Main St, Billings, MT'' (Some ''key'') [] =
     handler ?e2 ''1 Main St, Billings, MT'' (Some ''key'') []" by simp
  with world lib ans differ show ?thesis by blast
qed

end
